theory Spec2Isabelle
  imports Complex_Main
begin

section \<open>Role model (lib/auth.ts)\<close>

text \<open>
  \<^verbatim>\<open>export type UserRole = 'SUPERADMIN' | 'ADMIN' | 'HR' | 'HOD' | 'MANAGER' | 'DIRECTOR' | 'EMPLOYEE';\<close>
\<close>

datatype UserRole = SUPERADMIN | ADMIN | HR | HOD | MANAGER | DIRECTOR | EMPLOYEE

text \<open>
  The interface \<^verbatim>\<open>UserProfile\<close>. Field names carry the prefix \<open>p_\<close> because several
  tables of the program have a column \<open>id\<close>.
\<close>

record UserProfile =
  p_id :: string
  p_email :: string
  p_full_name :: string
  p_employee_id :: string
  p_role :: UserRole
  p_department_id :: "string option"
  p_is_active :: bool

text \<open>
  \<^verbatim>\<open>Array.prototype.includes\<close> on an array of role literals.
\<close>

definition array_includes :: "'a list \<Rightarrow> 'a \<Rightarrow> bool" where
  "array_includes xs x = (x \<in> set xs)"

text \<open>
  \<^verbatim>\<open>isAdmin = (role?: UserRole) => role ? ['SUPERADMIN', 'ADMIN', 'HR'].includes(role) : false\<close>
  and \<^verbatim>\<open>canManageEmployees\<close>, the same with \<^verbatim>\<open>'HOD', 'MANAGER'\<close> added.
  An absent argument (\<^verbatim>\<open>undefined\<close>) is \<open>None\<close>; every role literal is a non-empty
  string, hence truthy.
\<close>

definition isAdmin :: "UserRole option \<Rightarrow> bool" where
  "isAdmin r = (case r of
      Some x \<Rightarrow> array_includes [SUPERADMIN, ADMIN, HR] x
    | None \<Rightarrow> False)"

definition canManageEmployees :: "UserRole option \<Rightarrow> bool" where
  "canManageEmployees r = (case r of
      Some x \<Rightarrow> array_includes [SUPERADMIN, ADMIN, HR, HOD, MANAGER] x
    | None \<Rightarrow> False)"


section \<open>Access guard (components/ProtectedRoute.tsx, App.tsx)\<close>

text \<open>
  What \<^verbatim>\<open>useAuth()\<close> hands to a component: the signed-in user (its identifier), the
  profile row fetched for it, and the loading flag. The hook itself is not among the
  sources, so the three values are inputs of the model.
\<close>

record auth =
  user :: "string option"
  profile :: "UserProfile option"
  loading :: bool

datatype page =
  Dashboard | AttendancePage | EmployeesPage | ReportsPage | LeavePage
  | DepartmentsPage | AuthPage | NotFound

text \<open>
  What a component returns: the loading spinner, a \<^verbatim>\<open><Navigate to=... replace />\<close>, or a
  page.
\<close>

datatype element = Spinner | Navigate string | Render page

text \<open>
  \<^verbatim>\<open>ProtectedRoute({ children, requiredRole })\<close>: the three checks in the order of the
  source.
\<close>

definition ProtectedRoute :: "auth \<Rightarrow> UserRole list option \<Rightarrow> page \<Rightarrow> element" where
  "ProtectedRoute a requiredRole children =
     (if loading a then Spinner
      else if user a = None then Navigate ''/auth''
      else (case (requiredRole, profile a) of
              (Some rs, Some p) \<Rightarrow>
                if \<not> array_includes rs (p_role p) then Navigate ''/dashboard''
                else Render children
            | _ \<Rightarrow> Render children))"

text \<open>
  The route table of \<^verbatim>\<open>AppContent\<close> (the first, complete version of App.tsx). The routes
  are mounted only once \<^verbatim>\<open>loading\<close> is false. Paths are compared literally.
\<close>

definition Routes :: "auth \<Rightarrow> string \<Rightarrow> element" where
  "Routes a path =
     (if path = ''/'' then
        (if user a \<noteq> None then Navigate ''/dashboard'' else Navigate ''/auth'')
      else if path = ''/auth'' then
        (if user a \<noteq> None then Navigate ''/dashboard'' else Render AuthPage)
      else if path = ''/dashboard'' then ProtectedRoute a None Dashboard
      else if path = ''/attendance'' then ProtectedRoute a None AttendancePage
      else if path = ''/employees'' then
        ProtectedRoute a (Some [SUPERADMIN, ADMIN, HR, HOD, MANAGER]) EmployeesPage
      else if path = ''/reports'' then
        ProtectedRoute a (Some [SUPERADMIN, ADMIN, HR, HOD, MANAGER]) ReportsPage
      else if path = ''/leave-requests'' then ProtectedRoute a None LeavePage
      else if path = ''/departments'' then
        ProtectedRoute a (Some [SUPERADMIN, ADMIN, HR]) DepartmentsPage
      else Render NotFound)"

definition AppContent :: "auth \<Rightarrow> string \<Rightarrow> element" where
  "AppContent a path = (if loading a then Spinner else Routes a path)"


section \<open>Calendar dates and the leave duration (LeavePage.tsx, LeaveRequestForm.tsx)\<close>

text \<open>
  A leave date is the value of an \<^verbatim>\<open><input type="date">\<close>, a string \<^verbatim>\<open>YYYY-MM-DD\<close>. It is
  modelled by its day number, counted from 1970-01-01. The platform reads a date-only
  string as midnight UTC, so \<^verbatim>\<open>new Date(s).getTime()\<close> is the day number times the
  milliseconds of a day. Timestamps are integers (milliseconds since the epoch); the
  quotient by the length of a day is taken in exact rational arithmetic.
\<close>

type_synonym date = int

definition getTime :: "date \<Rightarrow> int" where
  "getTime d = d * (1000 * 60 * 60 * 24)"

text \<open>
  The day number of a civil date of the proleptic Gregorian calendar (year, month 1..12,
  day of the month), used to write concrete dates.
\<close>

definition days_from_civil :: "int \<Rightarrow> int \<Rightarrow> int \<Rightarrow> date" where
  "days_from_civil y m d =
     (let yy = (if m \<le> 2 then y - 1 else y);
          era = yy div 400;
          yoe = yy - era * 400;
          mp = (m + 9) mod 12;
          doy = (153 * mp + 2) div 5 + d - 1;
          doe = yoe * 365 + yoe div 4 - yoe div 100 + doy
      in era * 146097 + doe - 719468)"

text \<open>
  \<^verbatim>\<open>calculateDays(startDate, endDate)\<close> of LeavePage:
  \<^verbatim>\<open>Math.ceil(Math.abs(end.getTime() - start.getTime()) / (1000 * 60 * 60 * 24)) + 1\<close>.
\<close>

definition calculateDays :: "date \<Rightarrow> date \<Rightarrow> int" where
  "calculateDays startDate endDate =
     (let start_t = getTime startDate;
          end_t = getTime endDate;
          diffTime = \<bar>end_t - start_t\<bar>;
          diffDays = \<lceil>(of_int diffTime :: rat) / of_int (1000 * 60 * 60 * 24)\<rceil> + 1
      in diffDays)"

datatype leave_type_enum = SICK | CASUAL | ANNUAL | MATERNITY | PATERNITY | EMERGENCY

text \<open>
  The state \<^verbatim>\<open>formData\<close> of LeaveRequestForm. An empty string is \<open>None\<close> for the select
  and the two date inputs; the reason is the text itself.
\<close>

record formData =
  fd_leave_type :: "leave_type_enum option"
  fd_start_date :: "date option"
  fd_end_date :: "date option"
  fd_reason :: string

text \<open>
  \<^verbatim>\<open>calculateDays()\<close> of LeaveRequestForm: the same computation when both dates are set,
  and 0 otherwise.
\<close>

definition calculateDays_form :: "formData \<Rightarrow> int" where
  "calculateDays_form fd =
     (case (fd_start_date fd, fd_end_date fd) of
        (Some s, Some e) \<Rightarrow>
          (let start_t = getTime s;
               end_t = getTime e;
               diffTime = \<bar>end_t - start_t\<bar>;
               diffDays = \<lceil>(of_int diffTime :: rat) / of_int (1000 * 60 * 60 * 24)\<rceil> + 1
           in diffDays)
      | _ \<Rightarrow> 0)"


section \<open>The data store (the collaborator behind \<^verbatim>\<open>supabase.from(...)\<close>)\<close>

datatype attendance_status = PRESENT | ABSENT | HALF_DAY | LATE | EARLY_LEAVE

datatype request_status = PENDING | APPROVED | REJECTED

text \<open>
  A row of table \<^verbatim>\<open>attendance\<close> (the columns the pages read or write). Identifiers are
  generated by the store and modelled as numbers; timestamps are milliseconds since the
  epoch; a null column is \<open>None\<close>.
\<close>

record AttendanceRecord =
  a_id :: nat
  a_user_id :: string
  a_date :: date
  punch_in :: "int option"
  punch_out :: "int option"
  total_hours :: "rat option"
  a_status :: "attendance_status option"
  location_in :: "string option"
  location_out :: "string option"

text \<open>A row of table \<^verbatim>\<open>leave_requests\<close>.\<close>

record LeaveRequest =
  l_id :: nat
  l_user_id :: string
  leave_type :: leave_type_enum
  start_date :: date
  end_date :: date
  reason :: string
  l_status :: "request_status option"
  approved_by :: "string option"
  approved_at :: "int option"
  created_at :: int

text \<open>
  The store: the two tables, the next identifier it hands out, and whether it answers
  requests at all (\<open>online\<close> false stands for any failure of the collaborator: every
  request then comes back with an error and changes nothing).
\<close>

record db =
  attendance :: "AttendanceRecord list"
  leave_requests :: "LeaveRequest list"
  next_id :: nat
  online :: bool

text \<open>The \<^verbatim>\<open>error\<close> of a response, with its \<^verbatim>\<open>message\<close>.\<close>

datatype store_error = StoreError string

fun message :: "store_error \<Rightarrow> string" where
  "message (StoreError m) = m"

text \<open>
  Modelled from the spec: the store-level uniqueness constraint on (user, date) of table
  attendance. The schema of the table is not among the sources (the generated types list
  the columns, not the constraints); the spec requires that uniqueness be enforced by a
  store-level constraint, and so the insert of a row whose (user_id, date) is already
  present is answered with an error and changes nothing.

  The request is
  \<^verbatim>\<open>from('attendance').insert({ user_id, date, punch_in, location_in, status })\<close>; the
  columns the payload leaves out are null.
\<close>

definition store_insert_attendance ::
    "string \<Rightarrow> date \<Rightarrow> int \<Rightarrow> string \<Rightarrow> attendance_status \<Rightarrow> db \<Rightarrow> store_error + db" where
  "store_insert_attendance uid day t loc st d =
     (if \<not> online d then Inl (StoreError ''Failed to fetch'')
      else if list_ex (\<lambda>r. a_user_id r = uid \<and> a_date r = day) (attendance d)
        then Inl (StoreError ''duplicate key value violates unique constraint'')
      else Inr (d\<lparr>attendance := attendance d @
                    [\<lparr>a_id = next_id d, a_user_id = uid, a_date = day, punch_in = Some t,
                      punch_out = None, total_hours = None, a_status = Some st,
                      location_in = Some loc, location_out = None\<rparr>],
                 next_id := Suc (next_id d)\<rparr>))"

text \<open>
  \<^verbatim>\<open>from('attendance').update({ punch_out, location_out }).eq('id', id)\<close>: every row with
  that identifier is rewritten, whatever it holds; no row matching is not an error. The
  page never writes \<^verbatim>\<open>total_hours\<close>, and the model leaves the column as it is.
\<close>

definition store_update_attendance :: "nat \<Rightarrow> int \<Rightarrow> string \<Rightarrow> db \<Rightarrow> store_error + db" where
  "store_update_attendance i t loc d =
     (if \<not> online d then Inl (StoreError ''Failed to fetch'')
      else Inr (d\<lparr>attendance :=
                   map (\<lambda>r. if a_id r = i then r\<lparr>punch_out := Some t, location_out := Some loc\<rparr>
                             else r) (attendance d)\<rparr>))"

text \<open>
  \<^verbatim>\<open>from('leave_requests').insert({ user_id, leave_type, start_date, end_date, reason, status: 'PENDING' })\<close>.
  The columns \<^verbatim>\<open>leave_type\<close>, \<^verbatim>\<open>start_date\<close> and \<^verbatim>\<open>end_date\<close> are typed and not
  null, so an empty string for one of them is refused by the store; the reason is any
  text. \<^verbatim>\<open>created_at\<close> is the time of the insert.
\<close>

definition store_insert_leave :: "string \<Rightarrow> formData \<Rightarrow> int \<Rightarrow> db \<Rightarrow> store_error + db" where
  "store_insert_leave uid fd t d =
     (if \<not> online d then Inl (StoreError ''Failed to fetch'')
      else (case (fd_leave_type fd, fd_start_date fd, fd_end_date fd) of
              (Some ty, Some s, Some e) \<Rightarrow>
                Inr (d\<lparr>leave_requests := leave_requests d @
                        [\<lparr>l_id = next_id d, l_user_id = uid, leave_type = ty, start_date = s,
                          end_date = e, reason = fd_reason fd, l_status = Some PENDING,
                          approved_by = None, approved_at = None, created_at = t\<rparr>],
                      next_id := Suc (next_id d)\<rparr>)
            | _ \<Rightarrow> Inl (StoreError ''invalid input syntax'')))"

text \<open>
  \<^verbatim>\<open>from('leave_requests').update({ status, approved_by, approved_at }).eq('id', requestId)\<close>:
  the only filter is the identifier.
\<close>

definition store_update_leave ::
    "nat \<Rightarrow> request_status \<Rightarrow> string \<Rightarrow> int \<Rightarrow> db \<Rightarrow> store_error + db" where
  "store_update_leave i st uid t d =
     (if \<not> online d then Inl (StoreError ''Failed to fetch'')
      else Inr (d\<lparr>leave_requests :=
                   map (\<lambda>r. if l_id r = i
                             then r\<lparr>l_status := Some st, approved_by := Some uid,
                                    approved_at := Some t\<rparr>
                             else r) (leave_requests d)\<rparr>))"


section \<open>Toasts and the outcome of an asynchronous handler\<close>

datatype variant = Default | Destructive

text \<open>\<^verbatim>\<open>toast({ title, description, variant })\<close>.\<close>

datatype toast = Toast string string variant

text \<open>
  A promise is resolved with a value, rejected, or never settled.
\<close>

datatype 'a promise = Resolved 'a | Rejected | Pending

text \<open>
  How a call of an \<^verbatim>\<open>async\<close> handler ends, with the state of the page and of the store
  it leaves: it returns; or it stays suspended at an \<^verbatim>\<open>await\<close> whose promise never
  settles; or it throws (its own promise is rejected).
\<close>

datatype 'p outcome = Returned 'p db | Awaiting 'p db | Threw 'p db

fun outcome_db :: "'p outcome \<Rightarrow> db" where
  "outcome_db (Returned pg d) = d"
| "outcome_db (Awaiting pg d) = d"
| "outcome_db (Threw pg d) = d"

fun outcome_page :: "'p outcome \<Rightarrow> 'p" where
  "outcome_page (Returned pg d) = pg"
| "outcome_page (Awaiting pg d) = pg"
| "outcome_page (Threw pg d) = pg"


section \<open>Geolocation (AttendancePage.tsx, \<^verbatim>\<open>getCurrentLocation\<close>)\<close>

text \<open>
  What \<^verbatim>\<open>navigator.geolocation.getCurrentPosition(success, error)\<close> does with the two
  callbacks it is given: it calls the first with a position (latitude and longitude, as
  the template string prints them), or the second, or neither. The call passes no
  options, so no timeout is requested from the platform.
\<close>

datatype position_request = CallsSuccess string string | CallsError | CallsNeither

text \<open>\<^verbatim>\<open>navigator.geolocation\<close>: absent (\<open>None\<close>) or present with its behaviour.\<close>

type_synonym geolocation = "position_request option"

definition getCurrentLocation :: "geolocation \<Rightarrow> string promise" where
  "getCurrentLocation g =
     (case g of
        Some (CallsSuccess latitude longitude) \<Rightarrow> Resolved (latitude @ '', '' @ longitude)
      | Some CallsError \<Rightarrow> Resolved ''Location not available''
      | Some CallsNeither \<Rightarrow> Pending
      | None \<Rightarrow> Resolved ''Geolocation not supported'')"


section \<open>Attendance (AttendancePage.tsx)\<close>

text \<open>
  The state of one mounted AttendancePage: the three \<^verbatim>\<open>useState\<close> cells and the toasts it
  has raised. \<^verbatim>\<open>todayAttendance\<close> is the page's own copy of the row, as last fetched.
\<close>

record att_page =
  todayAttendance :: "AttendanceRecord option"
  recentAttendance :: "AttendanceRecord list"
  isLoading :: bool
  toasts :: "toast list"

text \<open>\<^verbatim>\<open>new Date().toISOString().split('T')[0]\<close>: the UTC date of the current instant.\<close>

definition today :: "int \<Rightarrow> date" where
  "today now = now div (1000 * 60 * 60 * 24)"

text \<open>
  \<^verbatim>\<open>fetchTodayAttendance\<close>: \<^verbatim>\<open>.eq('user_id', ...).eq('date', today).single()\<close>. With no
  row or several rows \<^verbatim>\<open>single()\<close> answers code PGRST116 and null data, which the page
  stores; any other error is logged and the state is kept.
\<close>

definition fetchTodayAttendance :: "UserProfile option \<Rightarrow> int \<Rightarrow> db \<Rightarrow> att_page \<Rightarrow> att_page" where
  "fetchTodayAttendance prof now d pg =
     (case prof of
        None \<Rightarrow> pg
      | Some p \<Rightarrow>
          if \<not> online d then pg
          else (case filter (\<lambda>r. a_user_id r = p_id p \<and> a_date r = today now) (attendance d) of
                  [r] \<Rightarrow> pg\<lparr>todayAttendance := Some r\<rparr>
                | _ \<Rightarrow> pg\<lparr>todayAttendance := None\<rparr>))"

text \<open>
  \<^verbatim>\<open>fetchRecentAttendance\<close>: the user's rows,
  \<^verbatim>\<open>.order('date', { ascending: false }).limit(7)\<close>.
\<close>

definition fetchRecentAttendance :: "UserProfile option \<Rightarrow> db \<Rightarrow> att_page \<Rightarrow> att_page" where
  "fetchRecentAttendance prof d pg =
     (case prof of
        None \<Rightarrow> pg
      | Some p \<Rightarrow>
          if \<not> online d then pg
          else pg\<lparr>recentAttendance :=
                 take 7 (rev (sort_key a_date (filter (\<lambda>r. a_user_id r = p_id p) (attendance d))))\<rparr>)"

definition add_toast :: "toast \<Rightarrow> att_page \<Rightarrow> att_page" where
  "add_toast t pg = pg\<lparr>toasts := toasts pg @ [t]\<rparr>"

text \<open>
  \<^verbatim>\<open>handlePunchIn\<close>. The handler makes no query of its own before the insert: whether a
  row for (user, today) exists is decided by the store alone.
\<close>

definition handlePunchIn ::
    "UserProfile option \<Rightarrow> geolocation \<Rightarrow> int \<Rightarrow> att_page \<Rightarrow> db \<Rightarrow> att_page outcome" where
  "handlePunchIn prof g now pg d =
     (case prof of
        None \<Rightarrow> Returned pg d
      | Some p \<Rightarrow>
          (case getCurrentLocation g of
             Pending \<Rightarrow> Awaiting (pg\<lparr>isLoading := True\<rparr>) d
           | Rejected \<Rightarrow> Threw (pg\<lparr>isLoading := True\<rparr>) d
           | Resolved location \<Rightarrow>
               (case store_insert_attendance (p_id p) (today now) now location PRESENT d of
                  Inl err \<Rightarrow>
                    Returned
                      ((add_toast (Toast ''Error'' ''Failed to punch in. Please try again.''
                                     Destructive) pg)\<lparr>isLoading := False\<rparr>) d
                | Inr d' \<Rightarrow>
                    Returned
                      ((fetchRecentAttendance prof d'
                         (fetchTodayAttendance prof now d'
                           (add_toast (Toast ''Punched In!'' ''Your attendance has been recorded.''
                                         Default) pg)))\<lparr>isLoading := False\<rparr>) d')))"

text \<open>
  \<^verbatim>\<open>handlePunchOut\<close>. It returns at once, with no toast, when the page holds no profile
  or no row for today; otherwise it writes the row whose identifier the page holds, and
  does not look at the \<^verbatim>\<open>punch_out\<close> of that row.
\<close>

definition handlePunchOut ::
    "UserProfile option \<Rightarrow> geolocation \<Rightarrow> int \<Rightarrow> att_page \<Rightarrow> db \<Rightarrow> att_page outcome" where
  "handlePunchOut prof g now pg d =
     (case (prof, todayAttendance pg) of
        (Some p, Some rec) \<Rightarrow>
          (case getCurrentLocation g of
             Pending \<Rightarrow> Awaiting (pg\<lparr>isLoading := True\<rparr>) d
           | Rejected \<Rightarrow> Threw (pg\<lparr>isLoading := True\<rparr>) d
           | Resolved location \<Rightarrow>
               (case store_update_attendance (a_id rec) now location d of
                  Inl err \<Rightarrow>
                    Returned
                      ((add_toast (Toast ''Error'' ''Failed to punch out. Please try again.''
                                     Destructive) pg)\<lparr>isLoading := False\<rparr>) d
                | Inr d' \<Rightarrow>
                    Returned
                      ((fetchRecentAttendance prof d'
                         (fetchTodayAttendance prof now d'
                           (add_toast (Toast ''Punched Out!'' ''Your day has been completed.''
                                         Default) pg)))\<lparr>isLoading := False\<rparr>) d'))
      | _ \<Rightarrow> Returned pg d)"

text \<open>
  The control the page renders under today's card, and whether it is disabled:
  the punch-in button when the page holds no row, the punch-out button when it holds a
  row without \<^verbatim>\<open>punch_out\<close>, the badge "Day Completed" otherwise.
\<close>

datatype att_control = PunchInButton bool | PunchOutButton bool | DayCompleted

definition AttendancePage_control :: "att_page \<Rightarrow> att_control" where
  "AttendancePage_control pg =
     (case todayAttendance pg of
        None \<Rightarrow> PunchInButton (isLoading pg)
      | Some rec \<Rightarrow>
          if punch_out rec = None then PunchOutButton (isLoading pg) else DayCompleted)"

text \<open>A click runs the handler of the button that is rendered and enabled.\<close>

definition click_punch_in ::
    "UserProfile option \<Rightarrow> geolocation \<Rightarrow> int \<Rightarrow> att_page \<Rightarrow> db \<Rightarrow> att_page outcome" where
  "click_punch_in prof g now pg d =
     (if AttendancePage_control pg = PunchInButton False then handlePunchIn prof g now pg d
      else Returned pg d)"

definition click_punch_out ::
    "UserProfile option \<Rightarrow> geolocation \<Rightarrow> int \<Rightarrow> att_page \<Rightarrow> db \<Rightarrow> att_page outcome" where
  "click_punch_out prof g now pg d =
     (if AttendancePage_control pg = PunchOutButton False then handlePunchOut prof g now pg d
      else Returned pg d)"






section \<open>Leave requests (LeavePage.tsx)\<close>

text \<open>
  The state of one mounted LeavePage. \<^verbatim>\<open>leaveRequests\<close> and \<^verbatim>\<open>myRequests\<close> are the page's
  own copies of the rows, as last fetched.
\<close>

record leave_page =
  leaveRequests :: "LeaveRequest list"
  myRequests :: "LeaveRequest list"
  showForm :: bool
  lp_isLoading :: bool
  lp_toasts :: "toast list"

text \<open>\<^verbatim>\<open>.order('created_at', { ascending: false })\<close>.\<close>

definition newest_first :: "LeaveRequest list \<Rightarrow> LeaveRequest list" where
  "newest_first rows = rev (sort_key created_at rows)"

text \<open>
  \<^verbatim>\<open>fetchLeaveRequests\<close>: the caller's own requests, and all requests when
  \<^verbatim>\<open>canManageEmployees(profile.role)\<close>. An error of either query is logged and the list is
  kept.
\<close>

definition fetchLeaveRequests :: "UserProfile option \<Rightarrow> db \<Rightarrow> leave_page \<Rightarrow> leave_page" where
  "fetchLeaveRequests prof d pg =
     (case prof of
        None \<Rightarrow> pg
      | Some p \<Rightarrow>
          (let pg1 = pg\<lparr>lp_isLoading := True\<rparr>;
               pg2 = (if \<not> online d then pg1
                      else pg1\<lparr>myRequests :=
                             newest_first (filter (\<lambda>r. l_user_id r = p_id p) (leave_requests d))\<rparr>);
               pg3 = (if canManageEmployees (Some (p_role p))
                      then (if \<not> online d then pg2
                            else pg2\<lparr>leaveRequests := newest_first (leave_requests d)\<rparr>)
                      else pg2)
           in pg3\<lparr>lp_isLoading := False\<rparr>))"

text \<open>
  The second argument of \<^verbatim>\<open>handleApproveReject\<close> has type \<^verbatim>\<open>'APPROVED' | 'REJECTED'\<close>.
\<close>

datatype decision = Approve | Reject

fun decided_status :: "decision \<Rightarrow> request_status" where
  "decided_status Approve = APPROVED"
| "decided_status Reject = REJECTED"

text \<open>\<^verbatim>\<open>status.toLowerCase()\<close>.\<close>

fun toLowerCase :: "decision \<Rightarrow> string" where
  "toLowerCase Approve = ''approved''"
| "toLowerCase Reject = ''rejected''"

text \<open>
  \<^verbatim>\<open>handleApproveReject(requestId, status)\<close>. Apart from the null check of the profile it
  goes straight to the update: it reads neither the role of the caller nor the status of
  the request.
\<close>

definition handleApproveReject ::
    "UserProfile option \<Rightarrow> nat \<Rightarrow> decision \<Rightarrow> int \<Rightarrow> leave_page \<Rightarrow> db \<Rightarrow> leave_page outcome" where
  "handleApproveReject prof requestId status now pg d =
     (case prof of
        None \<Rightarrow> Returned pg d
      | Some p \<Rightarrow>
          (case store_update_leave requestId (decided_status status) (p_id p) now d of
             Inl err \<Rightarrow>
               Returned (pg\<lparr>lp_toasts := lp_toasts pg @
                  [Toast ''Error'' ''Failed to update leave request'' Destructive]\<rparr>) d
           | Inr d' \<Rightarrow>
               Returned
                 (fetchLeaveRequests prof d'
                    (pg\<lparr>lp_toasts := lp_toasts pg @
                       [Toast ''Success'' (''Leave request '' @ toLowerCase status) Default]\<rparr>))
                 d'))"

text \<open>
  Where the page renders the approve and reject buttons of a request: in the card
  "All Leave Requests", which is rendered when \<^verbatim>\<open>canManageEmployees(profile?.role)\<close> and
  lists \<^verbatim>\<open>leaveRequests\<close> once loading is over, and there only for a request whose
  \<^verbatim>\<open>status === 'PENDING'\<close> in the page's copy. The form replaces the whole page while
  \<^verbatim>\<open>showForm\<close> is set.
\<close>

definition decision_buttons :: "UserProfile option \<Rightarrow> leave_page \<Rightarrow> LeaveRequest \<Rightarrow> bool" where
  "decision_buttons prof pg request =
     (\<not> showForm pg
      \<and> canManageEmployees (map_option p_role prof)
      \<and> \<not> lp_isLoading pg
      \<and> request \<in> set (leaveRequests pg)
      \<and> l_status request = Some PENDING)"

text \<open>A click on one of the two buttons of a request the page shows.\<close>

definition click_decision ::
    "UserProfile option \<Rightarrow> LeaveRequest \<Rightarrow> decision \<Rightarrow> int \<Rightarrow> leave_page \<Rightarrow> db
       \<Rightarrow> leave_page outcome" where
  "click_decision prof request status now pg d =
     (if decision_buttons prof pg request
      then handleApproveReject prof (l_id request) status now pg d
      else Returned pg d)"

text \<open>The row of a request in the store.\<close>

definition request_row :: "nat \<Rightarrow> db \<Rightarrow> LeaveRequest option" where
  "request_row i d = find (\<lambda>r. l_id r = i) (leave_requests d)"


section \<open>Submitting a leave request (LeaveRequestForm.tsx)\<close>

record form_page =
  formData :: formData
  f_isLoading :: bool
  f_toasts :: "toast list"
  onSuccess_called :: bool

text \<open>
  \<^verbatim>\<open>handleSubmit\<close>. The handler itself validates nothing: it inserts \<^verbatim>\<open>formData\<close> as it
  is. The toast of a failure shows \<^verbatim>\<open>error.message || 'Failed to submit leave request'\<close>.
\<close>

definition handleSubmit :: "UserProfile option \<Rightarrow> int \<Rightarrow> form_page \<Rightarrow> db \<Rightarrow> form_page outcome" where
  "handleSubmit prof now pg d =
     (case prof of
        None \<Rightarrow> Returned pg d
      | Some p \<Rightarrow>
          (case store_insert_leave (p_id p) (formData pg) now d of
             Inl err \<Rightarrow>
               Returned (pg\<lparr>f_toasts := f_toasts pg @
                  [Toast ''Error''
                     (if message err \<noteq> [] then message err else ''Failed to submit leave request'')
                     Destructive],
                  f_isLoading := False\<rparr>) d
           | Inr d' \<Rightarrow>
               Returned (pg\<lparr>f_toasts := f_toasts pg @
                  [Toast ''Success'' ''Leave request submitted successfully'' Default],
                  onSuccess_called := True, f_isLoading := False\<rparr>) d'))"

text \<open>
  The constraints the form declares on its native controls:
  \<^verbatim>\<open><Input id="start_date" type="date" required />\<close>,
  \<^verbatim>\<open><Input id="end_date" type="date" min={formData.start_date} required />\<close>,
  \<^verbatim>\<open><Textarea id="reason" required />\<close>. The select of the leave type declares none.
\<close>

datatype control = StartDateInput | EndDateInput | ReasonTextarea

datatype validity_flag = ValueMissing | RangeUnderflow

text \<open>
  The constraint validation the platform runs on these controls when the form is
  submitted (the form does not set \<^verbatim>\<open>noValidate\<close>): a required control with an empty
  value is \<^verbatim>\<open>valueMissing\<close>; a date below a non-empty \<^verbatim>\<open>min\<close> is \<^verbatim>\<open>rangeUnderflow\<close>.
  The result lists the invalid controls in document order.
\<close>

definition checkValidity :: "formData \<Rightarrow> (control \<times> validity_flag) list" where
  "checkValidity fd =
     (case fd_start_date fd of None \<Rightarrow> [(StartDateInput, ValueMissing)] | Some s \<Rightarrow> [])
     @ (case fd_end_date fd of
          None \<Rightarrow> [(EndDateInput, ValueMissing)]
        | Some e \<Rightarrow>
            (case fd_start_date fd of
               Some s \<Rightarrow> if e < s then [(EndDateInput, RangeUnderflow)] else []
             | None \<Rightarrow> []))
     @ (if fd_reason fd = [] then [(ReasonTextarea, ValueMissing)] else [])"

text \<open>
  What pressing "Submit Request" does: nothing while the button is disabled
  (\<^verbatim>\<open>disabled={isLoading}\<close>); with an invalid control the platform reports it and fires no
  submit event, so \<^verbatim>\<open>handleSubmit\<close> does not run; otherwise \<^verbatim>\<open>onSubmit={handleSubmit}\<close>.
\<close>

datatype submission =
  ButtonDisabled
  | Invalid "(control \<times> validity_flag) list"
  | Submitted "form_page outcome"

definition submit_form :: "UserProfile option \<Rightarrow> int \<Rightarrow> form_page \<Rightarrow> db \<Rightarrow> submission \<times> db" where
  "submit_form prof now pg d =
     (if f_isLoading pg then (ButtonDisabled, d)
      else if checkValidity (formData pg) \<noteq> [] then (Invalid (checkValidity (formData pg)), d)
      else (Submitted (handleSubmit prof now pg d), outcome_db (handleSubmit prof now pg d)))"


section \<open>Department attendance (ReportsPage.tsx, \<^verbatim>\<open>fetchDepartmentAttendance\<close>)\<close>

text \<open>
  A row of the first query: an active profile joined with its department and its
  attendance rows of today (\<^verbatim>\<open>emp.departments?.name\<close>, the statuses of \<^verbatim>\<open>emp.attendance\<close>).
  A row of the second query (all active profiles) carries the department name only.
\<close>

record present_profile =
  pp_department :: "string option"
  pp_attendance :: "attendance_status option list"

text \<open>\<^verbatim>\<open>emp.departments?.name || 'No Department'\<close>: a missing or empty name is replaced.\<close>

definition deptName :: "string option \<Rightarrow> string" where
  "deptName dn = (case dn of Some n \<Rightarrow> if n = [] then ''No Department'' else n
                   | None \<Rightarrow> ''No Department'')"

text \<open>
  The object \<^verbatim>\<open>departmentStats\<close>: department name to \<open>(present, total)\<close>, the keys in the
  order of their insertion. The object is read as a map from names to entries, which it
  is for every name that is not also a property of \<^verbatim>\<open>Object.prototype\<close>.
\<close>

type_synonym departmentStats = "(string \<times> nat \<times> nat) list"

text \<open>
  One step of the first loop: create the entry \<^verbatim>\<open>{ present: 0, total: 0 }\<close> when the key
  is missing, then \<^verbatim>\<open>total++\<close>.
\<close>

definition count_employee :: "departmentStats \<Rightarrow> string option \<Rightarrow> departmentStats" where
  "count_employee st emp =
     (let n = deptName emp;
          st1 = (if map_of st n = None then st @ [(n, (0, 0))] else st)
      in map (\<lambda>(k, pr, t). if k = n then (k, pr, t + 1) else (k, pr, t)) st1)"

text \<open>
  One step of the second loop: when \<^verbatim>\<open>emp.attendance?.[0]?.status === 'PRESENT'\<close>,
  \<^verbatim>\<open>departmentStats[deptName].present++\<close>. The entry is not created here: on a missing
  key the property read of \<^verbatim>\<open>undefined\<close> throws a TypeError (\<open>None\<close>).
\<close>

definition count_present :: "departmentStats \<Rightarrow> present_profile \<Rightarrow> departmentStats option" where
  "count_present st emp =
     (let n = deptName (pp_department emp) in
      if (case pp_attendance emp of a # _ \<Rightarrow> a = Some PRESENT | [] \<Rightarrow> False)
      then (case map_of st n of
              None \<Rightarrow> None
            | Some _ \<Rightarrow> Some (map (\<lambda>(k, pr, t). if k = n then (k, pr + 1, t) else (k, pr, t)) st))
      else Some st)"

fun count_all_present :: "departmentStats \<Rightarrow> present_profile list \<Rightarrow> departmentStats option" where
  "count_all_present st [] = Some st"
| "count_all_present st (emp # emps) =
     (case count_present st emp of None \<Rightarrow> None | Some st' \<Rightarrow> count_all_present st' emps)"

text \<open>
  A number as the page computes it: finite, or the \<^verbatim>\<open>NaN\<close> and \<^verbatim>\<open>Infinity\<close> that a
  division by zero produces.
\<close>

datatype js_number = Finite int | NaN | Infinity

text \<open>
  \<^verbatim>\<open>Math.round((stats.present / stats.total) * 100)\<close>, the quotient taken exactly;
  \<^verbatim>\<open>Math.round\<close> rounds a half upwards.
\<close>

definition percentage_of :: "nat \<Rightarrow> nat \<Rightarrow> js_number" where
  "percentage_of pr t =
     (if t = 0 then (if pr = 0 then NaN else Infinity)
      else Finite \<lfloor>((of_nat pr :: rat) / of_nat t) * 100 + 1 / 2\<rfloor>)"

record dept_data =
  department :: string
  present :: nat
  total :: nat
  percentage :: js_number

text \<open>
  \<^verbatim>\<open>fetchDepartmentAttendance\<close>, from the answers of its two queries to the list it hands
  to \<^verbatim>\<open>setDepartmentData\<close>. The first answer is an error (thrown, caught and logged) or
  its data; the error of the second query is not read, so its data is the rows or null.
  \<open>None\<close>: the \<^verbatim>\<open>catch\<close> block ran and \<^verbatim>\<open>setDepartmentData\<close> was not called.
\<close>

definition fetchDepartmentAttendance ::
    "store_error + present_profile list option \<Rightarrow> string option list option
       \<Rightarrow> dept_data list option" where
  "fetchDepartmentAttendance answer allEmployees =
     (case answer of
        Inl err \<Rightarrow> None
      | Inr data \<Rightarrow>
          (case count_all_present
                  (foldl count_employee [] (case allEmployees of None \<Rightarrow> [] | Some es \<Rightarrow> es))
                  (case data of None \<Rightarrow> [] | Some rows \<Rightarrow> rows) of
             None \<Rightarrow> None
           | Some st \<Rightarrow>
               Some (map (\<lambda>(k, pr, t). \<lparr>department = k, present = pr, total = t,
                                         percentage = percentage_of pr t\<rparr>) st)))"


section \<open>Concrete sessions used in the examples\<close>

definition alice :: UserProfile where
  "alice = \<lparr>p_id = ''u-1'', p_email = ''alice@example.org'', p_full_name = ''Alice'',
     p_employee_id = ''EMP001'', p_role = EMPLOYEE, p_department_id = None, p_is_active = True\<rparr>"

definition empty_db :: db where
  "empty_db = \<lparr>attendance = [], leave_requests = [], next_id = 1, online = True\<rparr>"

definition fresh_att_page :: att_page where
  "fresh_att_page = \<lparr>todayAttendance = None, recentAttendance = [], isLoading = False, toasts = []\<rparr>"

text \<open>The store after Alice has punched in at instant 1000 (day 0), with no geolocation.\<close>

definition punched_in_db :: db where
  "punched_in_db =
     \<lparr>attendance =
        [\<lparr>a_id = 1, a_user_id = ''u-1'', a_date = 0, punch_in = Some 1000,
          punch_out = None, total_hours = None, a_status = Some PRESENT,
          location_in = Some ''Geolocation not supported'', location_out = None\<rparr>],
      leave_requests = [], next_id = 2, online = True\<rparr>"


text \<open>
  The page of a second tab that fetched Alice's row while it was open, and the store
  after the first tab has punched out at instant 2000.
\<close>

definition stale_att_page :: att_page where
  "stale_att_page =
     \<lparr>todayAttendance = Some (hd (attendance punched_in_db)), recentAttendance = [],
      isLoading = False, toasts = []\<rparr>"

definition punched_out_db :: db where
  "punched_out_db =
     \<lparr>attendance =
        [\<lparr>a_id = 1, a_user_id = ''u-1'', a_date = 0, punch_in = Some 1000,
          punch_out = Some 2000, total_hours = None, a_status = Some PRESENT,
          location_in = Some ''Geolocation not supported'',
          location_out = Some ''Geolocation not supported''\<rparr>],
      leave_requests = [], next_id = 2, online = True\<rparr>"

text \<open>
  Two managers, Alice's pending request for 2024-03-01 to 2024-03-02 (days 19783 and 19784),
  the page either manager has loaded while the request was pending, and the store after
  the first of them has approved it at instant 1000.
\<close>

definition bob :: UserProfile where
  "bob = \<lparr>p_id = ''u-2'', p_email = ''bob@example.org'', p_full_name = ''Bob'',
     p_employee_id = ''EMP002'', p_role = MANAGER, p_department_id = None, p_is_active = True\<rparr>"

definition carol :: UserProfile where
  "carol = \<lparr>p_id = ''u-3'', p_email = ''carol@example.org'', p_full_name = ''Carol'',
     p_employee_id = ''EMP003'', p_role = HR, p_department_id = None, p_is_active = True\<rparr>"

definition pending_request :: LeaveRequest where
  "pending_request =
     \<lparr>l_id = 1, l_user_id = ''u-1'', leave_type = SICK, start_date = 19783, end_date = 19784,
      reason = ''flu'', l_status = Some PENDING, approved_by = None, approved_at = None,
      created_at = 500\<rparr>"

definition pending_db :: db where
  "pending_db = \<lparr>attendance = [], leave_requests = [pending_request], next_id = 2, online = True\<rparr>"

definition fresh_leave_page :: leave_page where
  "fresh_leave_page =
     \<lparr>leaveRequests = [], myRequests = [], showForm = False, lp_isLoading = True, lp_toasts = []\<rparr>"

definition loaded_leave_page :: leave_page where
  "loaded_leave_page =
     \<lparr>leaveRequests = [pending_request], myRequests = [], showForm = False,
      lp_isLoading = False, lp_toasts = []\<rparr>"

definition approved_db :: db where
  "approved_db =
     \<lparr>attendance = [],
      leave_requests = [pending_request\<lparr>l_status := Some APPROVED, approved_by := Some ''u-2'',
                                        approved_at := Some 1000\<rparr>],
      next_id = 2, online = True\<rparr>"

definition flu_form :: form_page where
  "flu_form =
     \<lparr>formData = \<lparr>fd_leave_type = Some SICK, fd_start_date = Some 19783,
                   fd_end_date = Some 19784, fd_reason = ''flu''\<rparr>,
      f_isLoading = False, f_toasts = [], onSuccess_called = False\<rparr>"


text \<open>The form with the end date before the start date, and the form with no reason.\<close>

definition backwards_form :: form_page where
  "backwards_form =
     \<lparr>formData = \<lparr>fd_leave_type = Some SICK, fd_start_date = Some 19783,
                   fd_end_date = Some 19782, fd_reason = ''flu''\<rparr>,
      f_isLoading = False, f_toasts = [], onSuccess_called = False\<rparr>"

definition no_reason_form :: form_page where
  "no_reason_form =
     \<lparr>formData = \<lparr>fd_leave_type = Some SICK, fd_start_date = Some 19783,
                   fd_end_date = Some 19784, fd_reason = []\<rparr>,
      f_isLoading = False, f_toasts = [], onSuccess_called = False\<rparr>"


text \<open>An active profile of department Sales whose attendance row of today is PRESENT.\<close>

definition sales_present :: present_profile where
  "sales_present = \<lparr>pp_department = Some ''Sales'', pp_attendance = [Some PRESENT]\<rparr>"


section \<open>Properties of the role model and the access guard\<close>

lemma array_includes_set: "array_includes xs x = (x \<in> set xs)"
  by (simp add: array_includes_def)

text \<open>
  \<open>AppContent\<close> shows its own spinner while \<open>loading\<close> is set and mounts the route table,
  and with it the guard, only afterwards: the guard never runs on a loading state.
\<close>

lemma AppContent_mounts_routes:
  "AppContent a path = (if loading a then Spinner else Routes a path)"
  by (simp add: AppContent_def)

text \<open>
  Claim C5. \<open>canManageEmployees\<close> (the spec's canManageWorkforce) is true for exactly the
  roles SUPERADMIN, ADMIN, HR, HOD and MANAGER; it is false for DIRECTOR, for EMPLOYEE and
  for an absent role. It is a function of the role alone.
\<close>

theorem canManageEmployees_exact:
  "canManageEmployees r =
     (r = Some SUPERADMIN \<or> r = Some ADMIN \<or> r = Some HR \<or> r = Some HOD \<or> r = Some MANAGER)
   \<and> canManageEmployees (Some DIRECTOR) = False
   \<and> canManageEmployees (Some EMPLOYEE) = False
   \<and> canManageEmployees None = False"
  by (cases r) (auto simp: canManageEmployees_def array_includes_set)



text \<open>
  Claim C10. Once the routes are mounted (\<open>loading\<close> false), an authenticated caller
  whose profile is null is shown the guarded page whatever allow-list is given; the guard
  redirects to \<open>/dashboard\<close> only when an allow-list and a loaded profile are both present
  and the role of the profile is not in the list.
\<close>

theorem ProtectedRoute_null_profile:
  "(\<not> loading a \<and> user a \<noteq> None \<and> profile a = None \<longrightarrow> ProtectedRoute a rr c = Render c)
   \<and> (ProtectedRoute a rr c = Navigate ''/dashboard''
        \<longrightarrow> (\<exists>rs p. rr = Some rs \<and> profile a = Some p \<and> p_role p \<notin> set rs))"
  by (auto simp: ProtectedRoute_def array_includes_set split: option.splits if_splits)

theorem ProtectedRoute_null_profile_witness:
  "ProtectedRoute \<lparr>user = Some ''u-17'', profile = None, loading = False\<rparr>
      (Some [SUPERADMIN, ADMIN, HR, HOD, MANAGER]) EmployeesPage = Render EmployeesPage"
proof -
  let ?a = "\<lparr>user = Some ''u-17'', profile = None, loading = False\<rparr>"
  have h: "\<not> loading ?a \<and> user ?a \<noteq> None \<and> profile ?a = None"
    by simp
  from ProtectedRoute_null_profile [of ?a "Some [SUPERADMIN, ADMIN, HR, HOD, MANAGER]" EmployeesPage]
  have "\<not> loading ?a \<and> user ?a \<noteq> None \<and> profile ?a = None
      \<longrightarrow> ProtectedRoute ?a (Some [SUPERADMIN, ADMIN, HR, HOD, MANAGER]) EmployeesPage
            = Render EmployeesPage"
    by (rule conjunct1)
  with h show ?thesis by (rule rev_mp)
qed


section \<open>Properties of the leave duration\<close>

lemma ms_per_day: "(1000 * 60 * 60 * 24 :: int) = 86400000"
  by simp

lemma abs_days: "\<bar>e * 86400000 - s * 86400000\<bar> = \<bar>e - s\<bar> * (86400000 :: int)"
proof -
  have "e * 86400000 - s * 86400000 = (e - s) * (86400000::int)" by (simp add: algebra_simps)
  then show ?thesis by (simp only: abs_mult)
qed

lemma whole_days_quotient:
  "(of_int (\<bar>e * 86400000 - s * 86400000\<bar>) :: rat) / of_int 86400000 = of_int \<bar>e - s\<bar>"
  unfolding abs_days by (simp only: of_int_mult) simp

lemma whole_days_ceiling:
  "\<lceil>(of_int (\<bar>e * 86400000 - s * 86400000\<bar>) :: rat) / of_int 86400000\<rceil> = \<bar>e - s\<bar>"
  by (simp only: whole_days_quotient ceiling_of_int)

lemma whole_days_floor:
  "\<lfloor>(of_int (\<bar>e * 86400000 - s * 86400000\<bar>) :: rat) / of_int 86400000\<rfloor> = \<bar>e - s\<bar>"
  by (simp only: whole_days_quotient floor_of_int)

lemma calculateDays_days: "calculateDays s e = \<bar>e - s\<bar> + 1"
  by (simp only: calculateDays_def getTime_def Let_def ms_per_day whole_days_ceiling)

lemma calculateDays_form_days:
  "calculateDays_form (fd\<lparr>fd_start_date := Some s, fd_end_date := Some e\<rparr>) = \<bar>e - s\<bar> + 1"
proof -
  have "calculateDays_form (fd\<lparr>fd_start_date := Some s, fd_end_date := Some e\<rparr>)
      = \<lceil>(of_int \<bar>getTime e - getTime s\<bar> :: rat) / of_int (1000 * 60 * 60 * 24)\<rceil> + 1"
    by (simp add: calculateDays_form_def Let_def del: of_int_abs of_int_diff of_int_mult of_int_numeral)
  then show ?thesis
    by (simp only: getTime_def ms_per_day whole_days_ceiling)
qed

lemma floor_days:
  "\<lfloor>(of_int \<bar>getTime e - getTime s\<bar> :: rat) / 86400000\<rfloor> = \<bar>e - s\<bar>"
proof -
  have "(86400000 :: rat) = of_int 86400000" by simp
  then show ?thesis
    by (simp only: getTime_def ms_per_day whole_days_floor)
qed

text \<open>
  Claim C7. For two leave dates the displayed duration is the inclusive day count,
  \<open>floor (|end - start| in days) + 1\<close>, in the list (\<open>calculateDays\<close>) and in the form
  (\<open>calculateDays_form\<close>, both dates supplied); 2024-01-01 to 2024-01-03 gives 3 days.
  The source rounds the quotient upwards; two dates are a whole number of days apart, so
  rounding upwards and downwards give the same count.
\<close>

theorem calculateDays_inclusive:
  "calculateDays s e = \<lfloor>(of_int \<bar>getTime e - getTime s\<bar> :: rat) / 86400000\<rfloor> + 1
   \<and> calculateDays s e = \<bar>e - s\<bar> + 1
   \<and> calculateDays_form (fd\<lparr>fd_start_date := Some s, fd_end_date := Some e\<rparr>)
        = \<lfloor>(of_int \<bar>getTime e - getTime s\<bar> :: rat) / 86400000\<rfloor> + 1
   \<and> calculateDays (days_from_civil 2024 1 1) (days_from_civil 2024 1 3) = 3
   \<and> days_from_civil 1970 1 1 = 0"
proof -
  have d1: "days_from_civil 2024 1 1 = 19723" and d3: "days_from_civil 2024 1 3 = 19725"
    and d0: "days_from_civil 1970 1 1 = 0"
    by (simp_all add: days_from_civil_def Let_def)
  have ex: "calculateDays (days_from_civil 2024 1 1) (days_from_civil 2024 1 3) = 3"
    unfolding d1 d3 calculateDays_days by simp
  show ?thesis
    unfolding floor_days calculateDays_form_days
    using ex d0 by (simp add: calculateDays_days)
qed

section \<open>Properties of geolocation\<close>

lemma getCurrentLocation_cases:
  "getCurrentLocation g = Pending \<longleftrightarrow> g = Some CallsNeither"
  by (auto simp: getCurrentLocation_def split: option.splits position_request.splits)






section \<open>Properties of attendance\<close>











lemma AttendancePage_control_punch_out:
  "(AttendancePage_control pg = PunchOutButton b)
     = ((\<exists>r. todayAttendance pg = Some r \<and> punch_out r = None) \<and> b = isLoading pg)"
  by (auto simp: AttendancePage_control_def split: option.splits)

lemma handlePunchOut_nothing:
  "prof = None \<or> todayAttendance pg = None \<Longrightarrow> handlePunchOut prof g now pg d = Returned pg d"
  by (auto simp: handlePunchOut_def split: option.splits)

lemma handlePunchOut_writes:
  "todayAttendance pg = Some r \<Longrightarrow> getCurrentLocation g = Resolved loc \<Longrightarrow> online d \<Longrightarrow>
   \<exists>pg'. handlePunchOut (Some p) g now pg d
      = Returned pg'
          (d\<lparr>attendance :=
               map (\<lambda>x. if a_id x = a_id r
                         then x\<lparr>punch_out := Some now, location_out := Some loc\<rparr> else x)
                 (attendance d)\<rparr>)
      \<and> toasts pg' = toasts pg @ [Toast ''Punched Out!'' ''Your day has been completed.'' Default]"
  by (simp add: handlePunchOut_def store_update_attendance_def add_toast_def
      fetchTodayAttendance_def fetchRecentAttendance_def split: list.splits)

lemma handlePunchOut_store_error:
  "todayAttendance pg = Some r \<Longrightarrow> getCurrentLocation g = Resolved loc \<Longrightarrow> \<not> online d \<Longrightarrow>
   handlePunchOut (Some p) g now pg d
      = Returned ((add_toast (Toast ''Error'' ''Failed to punch out. Please try again.''
                     Destructive) pg)\<lparr>isLoading := False\<rparr>) d"
  by (simp add: handlePunchOut_def store_update_attendance_def)

text \<open>
  Claim C3, as amended. The punch-out button is rendered exactly when the page's copy of
  today's row has no punch-out. \<open>handlePunchOut\<close> returns at once, changing nothing and
  raising no toast, when the page holds no profile or no row for today. Otherwise, once
  the location is resolved, it writes \<open>punch_out\<close> and \<open>location_out\<close> of every row with
  the identifier the page holds and reports success, whatever the row in the store
  holds; with a store that answers with an error it raises the toast "Failed to punch
  out. Please try again." and changes nothing.
\<close>

theorem punch_out_unchecked:
  "(AttendancePage_control pg = PunchOutButton b)
     = ((\<exists>r. todayAttendance pg = Some r \<and> punch_out r = None) \<and> b = isLoading pg)
   \<and> (prof = None \<or> todayAttendance pg = None \<longrightarrow> handlePunchOut prof g now pg d = Returned pg d)
   \<and> (todayAttendance pg = Some r \<and> getCurrentLocation g = Resolved loc \<and> online d \<longrightarrow>
        (\<exists>pg'. handlePunchOut (Some p) g now pg d
           = Returned pg'
               (d\<lparr>attendance :=
                    map (\<lambda>x. if a_id x = a_id r
                              then x\<lparr>punch_out := Some now, location_out := Some loc\<rparr> else x)
                      (attendance d)\<rparr>)
           \<and> toasts pg' = toasts pg @ [Toast ''Punched Out!'' ''Your day has been completed.'' Default]))
   \<and> (todayAttendance pg = Some r \<and> getCurrentLocation g = Resolved loc \<and> \<not> online d \<longrightarrow>
        handlePunchOut (Some p) g now pg d
          = Returned ((add_toast (Toast ''Error'' ''Failed to punch out. Please try again.''
                         Destructive) pg)\<lparr>isLoading := False\<rparr>) d)"
  using AttendancePage_control_punch_out [of pg b] handlePunchOut_nothing [of prof pg g now d]
    handlePunchOut_writes [of pg r g loc d p now] handlePunchOut_store_error [of pg r g loc d p now]
  by blast

theorem punch_out_unchecked_witness:
  "AttendancePage_control stale_att_page = PunchOutButton False
   \<and> handlePunchOut None None 5000 stale_att_page punched_in_db = Returned stale_att_page punched_in_db
   \<and> (\<exists>pg'. handlePunchOut (Some alice) None 2000 stale_att_page punched_in_db
          = Returned pg' punched_out_db
        \<and> toasts pg' = [Toast ''Punched Out!'' ''Your day has been completed.'' Default])
   \<and> handlePunchOut (Some alice) None 2000 stale_att_page (punched_in_db\<lparr>online := False\<rparr>)
        = Returned (stale_att_page\<lparr>toasts := [Toast ''Error'' ''Failed to punch out. Please try again.''
                       Destructive]\<rparr>) (punched_in_db\<lparr>online := False\<rparr>)"
proof -
  let ?r = "hd (attendance punched_in_db)"
  have t: "todayAttendance stale_att_page = Some ?r" "punch_out ?r = None"
      "isLoading stale_att_page = False" "toasts stale_att_page = []"
    by (simp_all add: stale_att_page_def punched_in_db_def)
  have g: "getCurrentLocation None = Resolved ''Geolocation not supported''"
    by (simp add: getCurrentLocation_def)
  have on: "online punched_in_db" "\<not> online (punched_in_db\<lparr>online := False\<rparr>)"
    by (simp_all add: punched_in_db_def)
  have upd: "punched_in_db\<lparr>attendance :=
               map (\<lambda>x. if a_id x = a_id ?r
                         then x\<lparr>punch_out := Some 2000,
                                location_out := Some ''Geolocation not supported''\<rparr> else x)
                 (attendance punched_in_db)\<rparr> = punched_out_db"
    by (simp add: punched_in_db_def punched_out_db_def)
  have 1: "AttendancePage_control stale_att_page = PunchOutButton False"
    using punch_out_unchecked [of stale_att_page False] t by blast
  have 2: "handlePunchOut None None 5000 stale_att_page punched_in_db
      = Returned stale_att_page punched_in_db"
    using punch_out_unchecked [of stale_att_page _ None None 5000 punched_in_db] by blast
  have 3: "\<exists>pg'. handlePunchOut (Some alice) None 2000 stale_att_page punched_in_db
          = Returned pg' punched_out_db
        \<and> toasts pg' = [Toast ''Punched Out!'' ''Your day has been completed.'' Default]"
    using punch_out_unchecked [of stale_att_page _ _ None 2000 punched_in_db ?r
        "''Geolocation not supported''" alice] t g on
    unfolding upd by simp
  have 4: "handlePunchOut (Some alice) None 2000 stale_att_page (punched_in_db\<lparr>online := False\<rparr>)
        = Returned (stale_att_page\<lparr>toasts := [Toast ''Error'' ''Failed to punch out. Please try again.''
                       Destructive]\<rparr>) (punched_in_db\<lparr>online := False\<rparr>)"
    using punch_out_unchecked [of stale_att_page _ _ None 2000 "punched_in_db\<lparr>online := False\<rparr>" ?r
        "''Geolocation not supported''" alice] t g on
    by (simp add: add_toast_def stale_att_page_def)
  from 1 2 3 4 show ?thesis by blast
qed

text \<open>
  Claim C3 as stated fails. Alice punches in at instant 1000; a second tab loads the open
  row; the first tab punches out at 2000, which closes the row; the second tab, whose copy
  still shows the row open, punches out at 5000: the call succeeds and the closed row's
  punch-out is overwritten. A punch-out with no row for today returns without any
  failure being reported.
\<close>

theorem punch_out_overwrites:
  "outcome_db (click_punch_in (Some alice) None 1000 fresh_att_page empty_db) = punched_in_db
   \<and> fetchTodayAttendance (Some alice) 1500 punched_in_db fresh_att_page = stale_att_page
   \<and> outcome_db (click_punch_out (Some alice) None 2000 stale_att_page punched_in_db)
        = punched_out_db
   \<and> map punch_out (attendance punched_out_db) = [Some 2000]
   \<and> AttendancePage_control stale_att_page = PunchOutButton False
   \<and> map punch_out (attendance (outcome_db
        (click_punch_out (Some alice) None 5000 stale_att_page punched_out_db))) = [Some 5000]
   \<and> toasts (outcome_page (click_punch_out (Some alice) None 5000 stale_att_page punched_out_db))
        = [Toast ''Punched Out!'' ''Your day has been completed.'' Default]
   \<and> handlePunchOut (Some alice) None 5000 fresh_att_page empty_db = Returned fresh_att_page empty_db"
  by (simp add: fetchTodayAttendance_def stale_att_page_def punched_in_db_def punched_out_db_def
      fresh_att_page_def alice_def today_def AttendancePage_control_def click_punch_out_def
      handlePunchOut_def getCurrentLocation_def store_update_attendance_def add_toast_def
      fetchRecentAttendance_def empty_db_def click_punch_in_def handlePunchIn_def
      store_insert_attendance_def)


section \<open>Properties of the leave workflow\<close>

lemma find_after_update:
  "(\<And>r. l_id (f r) = l_id r) \<Longrightarrow>
   find (\<lambda>r. l_id r = i) (map (\<lambda>r. if l_id r = i then f r else r) xs)
     = map_option f (find (\<lambda>r. l_id r = i) xs)"
  by (induction xs) auto

lemma request_row_after_update:
  "store_update_leave i st uid t d = Inr d' \<Longrightarrow>
   request_row i d'
     = map_option (\<lambda>r. r\<lparr>l_status := Some st, approved_by := Some uid, approved_at := Some t\<rparr>)
         (request_row i d)"
  by (auto simp: store_update_leave_def request_row_def find_after_update split: if_splits)

lemma fetchLeaveRequests_toasts: "lp_toasts (fetchLeaveRequests prof d pg) = lp_toasts pg"
  by (simp add: fetchLeaveRequests_def Let_def split: option.splits)

lemma decision_buttons_gate:
  "decision_buttons prof pg r \<Longrightarrow>
     canManageEmployees (map_option p_role prof) \<and> l_status r = Some PENDING
     \<and> r \<in> set (leaveRequests pg)"
  by (simp add: decision_buttons_def)

lemma click_without_buttons:
  "\<not> decision_buttons prof pg r \<Longrightarrow> click_decision prof r dec now pg d = Returned pg d"
  by (simp add: click_decision_def)

lemma handleApproveReject_writes:
  assumes "online d" and "request_row i d = Some r"
  shows "\<exists>pg' d'. handleApproveReject (Some p) i dec now pg d = Returned pg' d'
     \<and> request_row i d'
         = Some (r\<lparr>l_status := Some (decided_status dec), approved_by := Some (p_id p),
                   approved_at := Some now\<rparr>)
     \<and> lp_toasts pg'
         = lp_toasts pg @ [Toast ''Success'' (''Leave request '' @ toLowerCase dec) Default]"
proof -
  obtain d' where u: "store_update_leave i (decided_status dec) (p_id p) now d = Inr d'"
    using assms(1) by (simp add: store_update_leave_def)
  then have "handleApproveReject (Some p) i dec now pg d
      = Returned (fetchLeaveRequests (Some p) d'
          (pg\<lparr>lp_toasts := lp_toasts pg @
             [Toast ''Success'' (''Leave request '' @ toLowerCase dec) Default]\<rparr>)) d'"
    by (simp add: handleApproveReject_def)
  moreover have "request_row i d'
      = Some (r\<lparr>l_status := Some (decided_status dec), approved_by := Some (p_id p),
                approved_at := Some now\<rparr>)"
    using request_row_after_update [OF u] assms(2) by simp
  ultimately show ?thesis
    by (simp add: fetchLeaveRequests_toasts)
qed

lemma handleApproveReject_store_error:
  "\<not> online d \<Longrightarrow>
   handleApproveReject (Some p) i dec now pg d
     = Returned (pg\<lparr>lp_toasts := lp_toasts pg @
          [Toast ''Error'' ''Failed to update leave request'' Destructive]\<rparr>) d"
  by (simp add: handleApproveReject_def store_update_leave_def)

text \<open>
  Claim C1, as amended. The approve and reject buttons of a request are rendered only to a
  caller that satisfies \<open>canManageEmployees\<close> and only while the page's copy of the request is
  PENDING; a click where they are not rendered does nothing. \<open>handleApproveReject\<close> itself
  returns at once without a profile and otherwise reads neither the role of the caller nor
  the status of the request: when the store answers, the row with that identifier gets the
  decided status, the caller as approver and the time, whatever it held, and the page
  reports success; when the store answers with an error the page reports "Failed to update
  leave request" and nothing is changed.
\<close>

theorem decision_unchecked:
  "(decision_buttons prof pg r \<longrightarrow>
      canManageEmployees (map_option p_role prof) \<and> l_status r = Some PENDING
      \<and> r \<in> set (leaveRequests pg))
   \<and> (\<not> decision_buttons prof pg r \<longrightarrow> click_decision prof r dec now pg d = Returned pg d)
   \<and> handleApproveReject None i dec now pg d = Returned pg d
   \<and> (online d \<and> request_row i d = Some r \<longrightarrow>
        (\<exists>pg' d'. handleApproveReject (Some p) i dec now pg d = Returned pg' d'
           \<and> request_row i d'
               = Some (r\<lparr>l_status := Some (decided_status dec), approved_by := Some (p_id p),
                         approved_at := Some now\<rparr>)
           \<and> lp_toasts pg'
               = lp_toasts pg @ [Toast ''Success'' (''Leave request '' @ toLowerCase dec) Default]))
   \<and> (\<not> online d \<longrightarrow>
        handleApproveReject (Some p) i dec now pg d
          = Returned (pg\<lparr>lp_toasts := lp_toasts pg @
               [Toast ''Error'' ''Failed to update leave request'' Destructive]\<rparr>) d)"
proof -
  have "handleApproveReject None i dec now pg d = Returned pg d"
    by (simp add: handleApproveReject_def)
  then show ?thesis
    using decision_buttons_gate [of prof pg r] click_without_buttons [of prof pg r dec now d]
      handleApproveReject_writes [of d i r p dec now pg]
      handleApproveReject_store_error [of d p i dec now pg]
    by blast
qed

theorem decision_unchecked_witness:
  "decision_buttons (Some bob) loaded_leave_page pending_request
   \<and> canManageEmployees (Some MANAGER)
   \<and> click_decision (Some alice) pending_request Approve 1000 loaded_leave_page pending_db
        = Returned loaded_leave_page pending_db
   \<and> (\<exists>pg' d'. handleApproveReject (Some bob) 1 Approve 1000 loaded_leave_page pending_db
          = Returned pg' d'
        \<and> request_row 1 d' = Some (hd (leave_requests approved_db))
        \<and> lp_toasts pg' = [Toast ''Success'' ''Leave request approved'' Default])
   \<and> handleApproveReject (Some bob) 1 Approve 1000 loaded_leave_page (pending_db\<lparr>online := False\<rparr>)
        = Returned (loaded_leave_page\<lparr>lp_toasts :=
             [Toast ''Error'' ''Failed to update leave request'' Destructive]\<rparr>)
            (pending_db\<lparr>online := False\<rparr>)"
proof -
  have b: "decision_buttons (Some bob) loaded_leave_page pending_request"
    by (simp add: decision_buttons_def bob_def loaded_leave_page_def pending_request_def
        canManageEmployees_def array_includes_def)
  have nb: "\<not> decision_buttons (Some alice) loaded_leave_page pending_request"
    by (simp add: decision_buttons_def alice_def canManageEmployees_def array_includes_def)
  have row: "online pending_db \<and> request_row 1 pending_db = Some pending_request"
    by (simp add: pending_db_def request_row_def pending_request_def)
  have off: "\<not> online (pending_db\<lparr>online := False\<rparr>)"
    by simp
  have 1: "canManageEmployees (Some MANAGER)"
    using decision_unchecked [of "Some bob" loaded_leave_page pending_request] b
    by (simp add: bob_def)
  have 2: "click_decision (Some alice) pending_request Approve 1000 loaded_leave_page pending_db
        = Returned loaded_leave_page pending_db"
    using decision_unchecked [of "Some alice" loaded_leave_page pending_request Approve 1000 pending_db]
      nb by blast
  have 3: "\<exists>pg' d'. handleApproveReject (Some bob) 1 Approve 1000 loaded_leave_page pending_db
          = Returned pg' d'
        \<and> request_row 1 d' = Some (hd (leave_requests approved_db))
        \<and> lp_toasts pg' = [Toast ''Success'' ''Leave request approved'' Default]"
    using decision_unchecked [of _ loaded_leave_page pending_request Approve 1000 pending_db 1 bob] row
    by (simp add: approved_db_def bob_def loaded_leave_page_def)
  have 4: "handleApproveReject (Some bob) 1 Approve 1000 loaded_leave_page (pending_db\<lparr>online := False\<rparr>)
        = Returned (loaded_leave_page\<lparr>lp_toasts :=
             [Toast ''Error'' ''Failed to update leave request'' Destructive]\<rparr>)
            (pending_db\<lparr>online := False\<rparr>)"
    using decision_unchecked [of _ loaded_leave_page _ Approve 1000 "pending_db\<lparr>online := False\<rparr>" 1 bob]
      off
    by (simp add: loaded_leave_page_def)
  from b 1 2 3 4 show ?thesis by blast
qed

text \<open>
  Claim C1 as stated fails. Two managers load the page while Alice's request is pending.
  Bob approves it at instant 1000. Carol, whose page still shows the request as pending,
  rejects it at 2000: the second decision does not fail, it reports success and replaces
  the first, so the request has been APPROVED and is now REJECTED.
\<close>

theorem second_decision_overrides:
  "fetchLeaveRequests (Some bob) pending_db fresh_leave_page = loaded_leave_page
   \<and> fetchLeaveRequests (Some carol) pending_db fresh_leave_page = loaded_leave_page
   \<and> outcome_db (click_decision (Some bob) pending_request Approve 1000 loaded_leave_page pending_db)
        = approved_db
   \<and> map l_status (leave_requests approved_db) = [Some APPROVED]
   \<and> map l_status (leave_requests (outcome_db
        (click_decision (Some carol) pending_request Reject 2000 loaded_leave_page approved_db)))
        = [Some REJECTED]
   \<and> map approved_by (leave_requests (outcome_db
        (click_decision (Some carol) pending_request Reject 2000 loaded_leave_page approved_db)))
        = [Some ''u-3'']
   \<and> lp_toasts (outcome_page
        (click_decision (Some carol) pending_request Reject 2000 loaded_leave_page approved_db))
        = [Toast ''Success'' ''Leave request rejected'' Default]"
  by (simp add: fetchLeaveRequests_def Let_def bob_def carol_def pending_db_def fresh_leave_page_def
      loaded_leave_page_def pending_request_def approved_db_def canManageEmployees_def
      array_includes_def newest_first_def click_decision_def decision_buttons_def
      handleApproveReject_def store_update_leave_def)

lemma checkValidity_range:
  "fd_start_date fd = Some s \<Longrightarrow> fd_end_date fd = Some e \<Longrightarrow> e < s
     \<Longrightarrow> (EndDateInput, RangeUnderflow) \<in> set (checkValidity fd)"
  by (simp add: checkValidity_def)

lemma checkValidity_reason:
  "fd_reason fd = [] \<Longrightarrow> (ReasonTextarea, ValueMissing) \<in> set (checkValidity fd)"
  by (simp add: checkValidity_def)

lemma submit_form_invalid:
  "checkValidity (formData pg) \<noteq> [] \<Longrightarrow>
     submit_form prof now pg d
       = (if f_isLoading pg then ButtonDisabled else Invalid (checkValidity (formData pg)), d)"
  by (simp add: submit_form_def)

text \<open>
  Claim C4. A submission with the end date before the start date is refused with the
  range flag on the end date, and a submission with an empty reason is refused with the
  missing-value flag on the reason. In both cases the refusal comes from the validation of
  the form's constraints, before \<open>handleSubmit\<close> runs: nothing is submitted, the store is
  not touched and no leave request is created.
\<close>

theorem submit_form_validates:
  "((\<exists>s e. fd_start_date (formData pg) = Some s \<and> fd_end_date (formData pg) = Some e \<and> e < s)
      \<longrightarrow> (EndDateInput, RangeUnderflow) \<in> set (checkValidity (formData pg)))
   \<and> (fd_reason (formData pg) = []
      \<longrightarrow> (ReasonTextarea, ValueMissing) \<in> set (checkValidity (formData pg)))
   \<and> ((\<exists>s e. fd_start_date (formData pg) = Some s \<and> fd_end_date (formData pg) = Some e \<and> e < s)
        \<or> fd_reason (formData pg) = []
      \<longrightarrow> submit_form prof now pg d
            = (if f_isLoading pg then ButtonDisabled else Invalid (checkValidity (formData pg)), d)
          \<and> (\<forall>out. fst (submit_form prof now pg d) \<noteq> Submitted out)
          \<and> leave_requests (snd (submit_form prof now pg d)) = leave_requests d)"
proof -
  have r: "(\<exists>s e. fd_start_date (formData pg) = Some s \<and> fd_end_date (formData pg) = Some e \<and> e < s)
      \<longrightarrow> (EndDateInput, RangeUnderflow) \<in> set (checkValidity (formData pg))"
    using checkValidity_range [of "formData pg"] by blast
  have m: "fd_reason (formData pg) = []
      \<longrightarrow> (ReasonTextarea, ValueMissing) \<in> set (checkValidity (formData pg))"
    using checkValidity_reason [of "formData pg"] by blast
  have "(\<exists>s e. fd_start_date (formData pg) = Some s \<and> fd_end_date (formData pg) = Some e \<and> e < s)
        \<or> fd_reason (formData pg) = [] \<Longrightarrow> checkValidity (formData pg) \<noteq> []"
    using r m by auto
  then have "(\<exists>s e. fd_start_date (formData pg) = Some s \<and> fd_end_date (formData pg) = Some e \<and> e < s)
        \<or> fd_reason (formData pg) = []
      \<longrightarrow> submit_form prof now pg d
            = (if f_isLoading pg then ButtonDisabled else Invalid (checkValidity (formData pg)), d)
          \<and> (\<forall>out. fst (submit_form prof now pg d) \<noteq> Submitted out)
          \<and> leave_requests (snd (submit_form prof now pg d)) = leave_requests d"
    using submit_form_invalid [of pg prof now d] by auto
  with r m show ?thesis by blast
qed

theorem submit_form_validates_witness:
  "submit_form (Some alice) 700 backwards_form empty_db
     = (Invalid [(EndDateInput, RangeUnderflow)], empty_db)
   \<and> submit_form (Some alice) 700 no_reason_form empty_db
     = (Invalid [(ReasonTextarea, ValueMissing)], empty_db)
   \<and> submit_form (Some alice) 700 flu_form empty_db
     = (Submitted (Returned
          (flu_form\<lparr>f_toasts := [Toast ''Success'' ''Leave request submitted successfully'' Default],
                     onSuccess_called := True\<rparr>)
          (pending_db\<lparr>leave_requests := [pending_request\<lparr>created_at := 700\<rparr>]\<rparr>)),
        pending_db\<lparr>leave_requests := [pending_request\<lparr>created_at := 700\<rparr>]\<rparr>)"
proof -
  have b: "fd_start_date (formData backwards_form) = Some 19783
      \<and> fd_end_date (formData backwards_form) = Some 19782 \<and> (19782 :: int) < 19783"
    by (simp add: backwards_form_def)
  have n: "fd_reason (formData no_reason_form) = []"
    by (simp add: no_reason_form_def)
  have cb: "checkValidity (formData backwards_form) = [(EndDateInput, RangeUnderflow)]"
    and cn: "checkValidity (formData no_reason_form) = [(ReasonTextarea, ValueMissing)]"
    and lb: "\<not> f_isLoading backwards_form" and ln: "\<not> f_isLoading no_reason_form"
    by (simp_all add: checkValidity_def backwards_form_def no_reason_form_def)
  have 1: "submit_form (Some alice) 700 backwards_form empty_db
     = (Invalid [(EndDateInput, RangeUnderflow)], empty_db)"
    using submit_form_validates [of backwards_form "Some alice" 700 empty_db] b cb lb by auto
  have 2: "submit_form (Some alice) 700 no_reason_form empty_db
     = (Invalid [(ReasonTextarea, ValueMissing)], empty_db)"
    using submit_form_validates [of no_reason_form "Some alice" 700 empty_db] n cn ln by auto
  have 3: "submit_form (Some alice) 700 flu_form empty_db
     = (Submitted (Returned
          (flu_form\<lparr>f_toasts := [Toast ''Success'' ''Leave request submitted successfully'' Default],
                     onSuccess_called := True\<rparr>)
          (pending_db\<lparr>leave_requests := [pending_request\<lparr>created_at := 700\<rparr>]\<rparr>)),
        pending_db\<lparr>leave_requests := [pending_request\<lparr>created_at := 700\<rparr>]\<rparr>)"
    by (simp add: submit_form_def checkValidity_def flu_form_def handleSubmit_def
        store_insert_leave_def empty_db_def alice_def pending_db_def pending_request_def)
  from 1 2 3 show ?thesis by blast
qed


section \<open>Properties of the department statistic\<close>

lemma count_employee_total:
  assumes "\<forall>x \<in> set st. 1 \<le> snd (snd x)"
  shows "\<forall>x \<in> set (count_employee st emp). 1 \<le> snd (snd x)"
proof
  fix x assume "x \<in> set (count_employee st emp)"
  then obtain k pr t where
    x: "x = (if k = deptName emp then (k, pr, t + 1) else (k, pr, t))" and
    m: "(k, pr, t) \<in> set (if map_of st (deptName emp) = None
                              then st @ [(deptName emp, (0, 0))] else st)"
    by (auto simp: count_employee_def Let_def)
  show "1 \<le> snd (snd x)"
  proof (cases "k = deptName emp")
    case True
    with x show ?thesis by simp
  next
    case False
    with m have "(k, pr, t) \<in> set st" by (auto split: if_splits)
    with assms have "1 \<le> t" by force
    with x False show ?thesis by simp
  qed
qed

lemma count_employee_keys:
  "fst ` set (count_employee st emp) = insert (deptName emp) (fst ` set st)"
proof -
  have "fst ` set (count_employee st emp)
      = fst ` set (if map_of st (deptName emp) = None then st @ [(deptName emp, (0, 0))] else st)"
    by (force simp: count_employee_def Let_def image_iff)
  also have "\<dots> = insert (deptName emp) (fst ` set st)"
    by (auto simp: map_of_eq_None_iff dest: weak_map_of_SomeI)
  finally show ?thesis .
qed

lemma foldl_count_employee_total:
  "\<forall>x \<in> set st. 1 \<le> snd (snd x) \<Longrightarrow> \<forall>x \<in> set (foldl count_employee st es). 1 \<le> snd (snd x)"
proof (induction es arbitrary: st)
  case Nil
  then show ?case by simp
next
  case (Cons e es)
  from Cons.prems have "\<forall>x \<in> set (count_employee st e). 1 \<le> snd (snd x)"
    by (rule count_employee_total)
  then show ?case using Cons.IH by simp
qed

lemma foldl_count_employee_keys:
  "fst ` set (foldl count_employee st es) = fst ` set st \<union> deptName ` set es"
  by (induction es arbitrary: st) (auto simp: count_employee_keys)

lemma count_present_shape:
  assumes "count_present st emp = Some st'"
  shows "st' = st \<or> st' = map (\<lambda>(k, pr, t). if k = deptName (pp_department emp)
                                              then (k, pr + 1, t) else (k, pr, t)) st"
  using assms by (auto simp: count_present_def Let_def split: if_splits option.splits)

lemma count_present_total:
  assumes "count_present st emp = Some st'" and "\<forall>x \<in> set st. 1 \<le> snd (snd x)"
  shows "\<forall>x \<in> set st'. 1 \<le> snd (snd x)"
proof
  fix x assume "x \<in> set st'"
  with count_present_shape [OF assms(1)] obtain y where
    y: "y \<in> set st" and "snd (snd x) = snd (snd y)"
    by (cases "st' = st") (auto split: if_splits)
  with assms(2) show "1 \<le> snd (snd x)" by simp
qed

lemma count_present_keys:
  assumes "count_present st emp = Some st'"
  shows "fst ` set st' = fst ` set st"
  using count_present_shape [OF assms] by (force simp: image_iff split: if_splits)

lemma count_all_present_total:
  "count_all_present st emps = Some st' \<Longrightarrow> \<forall>x \<in> set st. 1 \<le> snd (snd x)
     \<Longrightarrow> \<forall>x \<in> set st'. 1 \<le> snd (snd x)"
proof (induction emps arbitrary: st)
  case Nil
  then show ?case by simp
next
  case (Cons emp emps)
  from Cons.prems(1) obtain st1 where
    1: "count_present st emp = Some st1" and 2: "count_all_present st1 emps = Some st'"
    by (auto split: option.splits)
  from count_present_total [OF 1 Cons.prems(2)] Cons.IH [OF 2] show ?case by blast
qed

lemma count_all_present_keys:
  "count_all_present st emps = Some st' \<Longrightarrow> fst ` set st' = fst ` set st"
proof (induction emps arbitrary: st)
  case Nil
  then show ?case by simp
next
  case (Cons emp emps)
  from Cons.prems(1) obtain st1 where
    1: "count_present st emp = Some st1" and 2: "count_all_present st1 emps = Some st'"
    by (auto split: option.splits)
  from count_present_keys [OF 1] Cons.IH [OF 2] show ?case by simp
qed

text \<open>
  Whenever the list is handed to \<open>setDepartmentData\<close>, each of its rows has a total of at
  least one and a finite percentage, and its department is the department of a profile
  of the second query: the quotient is never taken by zero.
\<close>

lemma published_rows_defined:
  assumes "fetchDepartmentAttendance answer allEmployees = Some rows" and "row \<in> set rows"
  shows "1 \<le> total row
     \<and> percentage row
         = Finite \<lfloor>((of_nat (present row) :: rat) / of_nat (total row)) * 100 + 1 / 2\<rfloor>
     \<and> (\<exists>es. allEmployees = Some es \<and> department row \<in> deptName ` set es)"
proof -
  let ?es = "case allEmployees of None \<Rightarrow> [] | Some es \<Rightarrow> es"
  from assms(1) obtain data st where
    st: "count_all_present (foldl count_employee [] ?es)
           (case data of None \<Rightarrow> [] | Some rs \<Rightarrow> rs) = Some st"
    and rows: "rows = map (\<lambda>(k, pr, t). \<lparr>department = k, present = pr, total = t,
                                         percentage = percentage_of pr t\<rparr>) st"
    by (auto simp: fetchDepartmentAttendance_def split: sum.splits option.splits)
  have pos: "\<forall>x \<in> set st. 1 \<le> snd (snd x)"
    using count_all_present_total [OF st] foldl_count_employee_total [of "[]" ?es] by simp
  have keys: "fst ` set st = deptName ` set ?es"
    using count_all_present_keys [OF st] foldl_count_employee_keys [of "[]" ?es] by simp
  from assms(2) rows obtain k pr t where
    m: "(k, pr, t) \<in> set st" and
    r: "row = \<lparr>department = k, present = pr, total = t, percentage = percentage_of pr t\<rparr>"
    by auto
  from m pos have t: "1 \<le> t" by force
  from m have "k \<in> fst ` set st" by force
  with keys have "k \<in> deptName ` set ?es" by simp
  then have "\<exists>es. allEmployees = Some es \<and> k \<in> deptName ` set es"
    by (cases allEmployees) auto
  with t r show ?thesis
    by (simp add: percentage_of_def)
qed

text \<open>
  Claim C8, where the code departs from it. The second loop increments the entry of a
  department without creating it, as the first loop does. When a PRESENT profile of the
  first query belongs to a department that the second query did not count (its answer was
  null, or the department is not in it), the read of the missing entry throws, the
  \<open>catch\<close> block logs the error, and no list at all is published; with the department
  counted, the same profile gives the row 1 of 1, 100 percent.
\<close>

theorem fetchDepartmentAttendance_throws:
  "fetchDepartmentAttendance (Inr (Some [sales_present])) None = None
   \<and> fetchDepartmentAttendance (Inr (Some [sales_present])) (Some [Some ''Ops'']) = None
   \<and> fetchDepartmentAttendance (Inr (Some [sales_present])) (Some [Some ''Ops'', Some ''Sales''])
       = Some [\<lparr>department = ''Ops'', present = 0, total = 1, percentage = Finite 0\<rparr>,
               \<lparr>department = ''Sales'', present = 1, total = 1, percentage = Finite 100\<rparr>]"
  by code_simp


end
